theory Spec2Isabelle
  imports Complex_Main
begin

section \<open>Feeds and speeds: the calculation core\<close>

text \<open>
  The embedding follows the Python sources module by module. Python's \<open>float\<close> is
  modelled by \<^typ>\<open>real\<close>: arithmetic is exact, so rounding, overflow and the
  non-finite values of binary64 are outside the model. Python's \<open>int\<close> is
  \<^typ>\<open>int\<close>. Every \<open>raise\<close> of the sources, and every exception a built-in
  operation can throw (division by zero, indexing, key lookup, \<open>max\<close> of nothing,
  \<open>math.sqrt\<close> of a negative number), is a value \<open>Inl e\<close> of the result type.
\<close>

subsection \<open>Exceptions and built-in operations\<close>

datatype error =
    ValueError string
  | ZeroDivisionError
  | IndexError
  | KeyError

type_synonym 'a result = "error + 'a"

definition bind_result :: "'a result \<Rightarrow> ('a \<Rightarrow> 'b result) \<Rightarrow> 'b result" where
  "bind_result r f = (case r of Inl e \<Rightarrow> Inl e | Inr v \<Rightarrow> f v)"

definition py_div :: "real \<Rightarrow> real \<Rightarrow> real result" where
  "py_div a b = (if b = 0 then Inl ZeroDivisionError else Inr (a / b))"

text \<open>
  \<open>xs[i]\<close>: an index from \<open>-len(xs)\<close> up to \<open>-1\<close> counts from the end of the list;
  anything outside \<open>-len(xs) \<le> i < len(xs)\<close> raises \<open>IndexError\<close>.
\<close>

definition py_index :: "'a list \<Rightarrow> int \<Rightarrow> 'a result" where
  "py_index xs i =
     (if 0 \<le> i \<and> i < int (length xs) then Inr (xs ! nat i)
      else if - int (length xs) \<le> i \<and> i < 0 then Inr (xs ! nat (int (length xs) + i))
      else Inl IndexError)"

definition dict_get :: "('k \<times> 'v) list \<Rightarrow> 'k \<Rightarrow> 'v result" where
  "dict_get d k = (case map_of d k of None \<Rightarrow> Inl KeyError | Some v \<Rightarrow> Inr v)"

definition py_max :: "real list \<Rightarrow> real result" where
  "py_max xs =
     (case xs of [] \<Rightarrow> Inl (ValueError ''max() arg is an empty sequence'')
      | y # ys \<Rightarrow> Inr (fold max ys y))"

definition py_min :: "real list \<Rightarrow> real result" where
  "py_min xs =
     (case xs of [] \<Rightarrow> Inl (ValueError ''min() arg is an empty sequence'')
      | y # ys \<Rightarrow> Inr (fold min ys y))"

subsection \<open>calculations.py\<close>

text \<open>
  A dictionary literal is kept as the association list of its entries, in the order
  written; \<open>sorted(d.keys())\<close> is \<^const>\<open>sort\<close> of the keys.
\<close>

record MaterialProperties =
  name :: string
  chipload_ranges :: "(real \<times> (real \<times> real)) list"

definition get_default_materials :: "(string \<times> MaterialProperties) list" where
  "get_default_materials =
     [(''Soft plastics'',
         \<lparr>name = ''Soft plastics'',
          chipload_ranges = [(1.5, (0.05, 0.075)), (3.175, (0.05, 0.13)), (6, (0.05, 0.254))]\<rparr>),
      (''Soft wood & hard plastics'',
         \<lparr>name = ''Soft wood & hard plastics'',
          chipload_ranges = [(1.5, (0.025, 0.04)), (3.175, (0.025, 0.063)), (6, (0.025, 0.127))]\<rparr>),
      (''Hard wood & aluminium'',
         \<lparr>name = ''Hard wood & aluminium'',
          chipload_ranges = [(1.5, (0.013, 0.013)), (3.175, (0.013, 0.025)), (6, (0.025, 0.05))]\<rparr>)]"

record CuttingParameters =
  flutes :: real
  tool_diameter :: real
  rpm :: real
  width_of_cut :: real
  depth_of_cut :: real
  chipload :: real

definition validate :: "CuttingParameters \<Rightarrow> string option" where
  "validate p =
     (if flutes p \<le> 0 then Some ''Number of flutes must be positive''
      else if tool_diameter p \<le> 0 then Some ''Tool diameter must be positive''
      else if rpm p \<le> 0 then Some ''RPM must be positive''
      else if width_of_cut p \<le> 0 then Some ''Width of cut must be positive''
      else if depth_of_cut p \<le> 0 then Some ''Depth of cut must be positive''
      else if chipload p \<le> 0 then Some ''Chipload must be positive''
      else if width_of_cut p > tool_diameter p then Some ''Width of cut cannot exceed tool diameter''
      else None)"

record ChiploadCalculator =
  materials :: "(string \<times> MaterialProperties) list"

definition ChiploadCalculator_init :: ChiploadCalculator where
  "ChiploadCalculator_init = \<lparr>materials = get_default_materials\<rparr>"

definition interpolate :: "real \<Rightarrow> real \<Rightarrow> real \<Rightarrow> real \<Rightarrow> real \<Rightarrow> real result" where
  "interpolate x x1 y1 x2 y2 =
     bind_result (py_div ((x - x1) * (y2 - y1)) (x2 - x1)) (\<lambda>q. Inr (y1 + q))"

definition suggest_chipload :: "ChiploadCalculator \<Rightarrow> real \<Rightarrow> string \<Rightarrow> (real \<times> real) result" where
  "suggest_chipload self tool_diameter' material_type =
     (case map_of (materials self) material_type of
        None \<Rightarrow> Inl (ValueError (''Unknown material type: '' @ material_type))
      | Some material \<Rightarrow>
          (let ranges = chipload_ranges material;
               diameters = sort (map fst ranges) in
           bind_result (py_index diameters 0) (\<lambda>d0.
           if tool_diameter' \<le> d0 then dict_get ranges d0
           else
           bind_result (py_index diameters (- 1)) (\<lambda>dl.
           if tool_diameter' \<ge> dl then
             bind_result (py_index diameters (- 2)) (\<lambda>lower_diameter.
             bind_result (py_index diameters (- 1)) (\<lambda>upper_diameter.
             bind_result (dict_get ranges lower_diameter) (\<lambda>lower_range.
             bind_result (dict_get ranges upper_diameter) (\<lambda>upper_range.
             bind_result (py_div (fst upper_range - fst lower_range)
                                 (upper_diameter - lower_diameter)) (\<lambda>slope_lower.
             bind_result (py_div (snd upper_range - snd lower_range)
                                 (upper_diameter - lower_diameter)) (\<lambda>slope_upper.
             let extrapolated_lower = fst upper_range + slope_lower * (tool_diameter' - upper_diameter);
                 extrapolated_upper = snd upper_range + slope_upper * (tool_diameter' - upper_diameter) in
             bind_result (py_index diameters 0) (\<lambda>d0'.
             bind_result (dict_get ranges d0') (\<lambda>first_range.
             Inr (max extrapolated_lower (fst first_range), extrapolated_upper)))))))))
           else
             bind_result (py_max (filter (\<lambda>d. d \<le> tool_diameter') diameters)) (\<lambda>lower_diameter.
             bind_result (py_min (filter (\<lambda>d. d \<ge> tool_diameter') diameters)) (\<lambda>upper_diameter.
             if lower_diameter = upper_diameter then dict_get ranges lower_diameter
             else
               bind_result (dict_get ranges lower_diameter) (\<lambda>lower_range.
               bind_result (dict_get ranges upper_diameter) (\<lambda>upper_range.
               bind_result (interpolate tool_diameter' lower_diameter (fst lower_range)
                                        upper_diameter (fst upper_range)) (\<lambda>interpolated_lower.
               bind_result (interpolate tool_diameter' lower_diameter (snd lower_range)
                                        upper_diameter (snd upper_range)) (\<lambda>interpolated_upper.
               Inr (interpolated_lower, interpolated_upper)))))))))))"


subsection \<open>data_models.py\<close>

text \<open>
  This module repeats the chipload table and the lookup of \<open>calculations.py\<close> with
  enumerated materials, and has a \<open>CuttingParameters\<close> class of its own whose
  constructor validates. Names that the two modules share carry the suffix \<open>_dm\<close> here.
\<close>

datatype MaterialType = SOFT_PLASTICS | SOFT_WOOD_HARD_PLASTICS | HARD_WOOD_ALUMINIUM

datatype CuttingStyle = WIDE_SHALLOW | NARROW_DEEP

record MaterialProperties_dm =
  chiploads :: "(MaterialType \<times> (real \<times> (real \<times> real)) list) list"

definition default_chiploads :: "(MaterialType \<times> (real \<times> (real \<times> real)) list) list" where
  "default_chiploads =
     [(SOFT_PLASTICS, [(1.5, (0.05, 0.075)), (3.175, (0.05, 0.13)), (6, (0.05, 0.254))]),
      (SOFT_WOOD_HARD_PLASTICS, [(1.5, (0.025, 0.04)), (3.175, (0.025, 0.063)), (6, (0.025, 0.127))]),
      (HARD_WOOD_ALUMINIUM, [(1.5, (0.013, 0.013)), (3.175, (0.013, 0.025)), (6, (0.025, 0.05))])]"

definition MaterialProperties_dm_init ::
  "(MaterialType \<times> (real \<times> (real \<times> real)) list) list \<Rightarrow> MaterialProperties_dm" where
  "MaterialProperties_dm_init cs =
     (if cs = [] then \<lparr>chiploads = default_chiploads\<rparr> else \<lparr>chiploads = cs\<rparr>)"

definition interpolate_dm :: "real \<Rightarrow> real \<Rightarrow> real \<Rightarrow> real \<Rightarrow> real \<Rightarrow> real result" where
  "interpolate_dm x x1 y1 x2 y2 =
     bind_result (py_div ((x - x1) * (y2 - y1)) (x2 - x1)) (\<lambda>q. Inr (y1 + q))"

definition interpolate_chipload ::
  "MaterialProperties_dm \<Rightarrow> MaterialType \<Rightarrow> real \<Rightarrow> (real \<times> real) result" where
  "interpolate_chipload self material tool_diameter' =
     bind_result (dict_get (chiploads self) material) (\<lambda>material_data.
     let diameters = sort (map fst material_data) in
     bind_result (py_max (filter (\<lambda>d. d \<le> tool_diameter') diameters)) (\<lambda>lower_diameter.
     bind_result (py_min (filter (\<lambda>d. d \<ge> tool_diameter') diameters)) (\<lambda>upper_diameter.
     if lower_diameter = upper_diameter then dict_get material_data lower_diameter
     else
       bind_result (dict_get material_data lower_diameter) (\<lambda>lower_range.
       bind_result (dict_get material_data upper_diameter) (\<lambda>upper_range.
       bind_result (interpolate_dm tool_diameter' lower_diameter (fst lower_range)
                                   upper_diameter (fst upper_range)) (\<lambda>interpolated_lower.
       bind_result (interpolate_dm tool_diameter' lower_diameter (snd lower_range)
                                   upper_diameter (snd upper_range)) (\<lambda>interpolated_upper.
       Inr (interpolated_lower, interpolated_upper))))))))"

definition extrapolate_chipload ::
  "MaterialProperties_dm \<Rightarrow> MaterialType \<Rightarrow> real \<Rightarrow> (real \<times> real) result" where
  "extrapolate_chipload self material tool_diameter' =
     bind_result (dict_get (chiploads self) material) (\<lambda>material_data.
     let diameters = sort (map fst material_data) in
     bind_result (py_index diameters (- 2)) (\<lambda>lower_diameter.
     bind_result (py_index diameters (- 1)) (\<lambda>upper_diameter.
     bind_result (dict_get material_data lower_diameter) (\<lambda>lower_range.
     bind_result (dict_get material_data upper_diameter) (\<lambda>upper_range.
     bind_result (py_div (fst upper_range - fst lower_range)
                         (upper_diameter - lower_diameter)) (\<lambda>slope_lower.
     bind_result (py_div (snd upper_range - snd lower_range)
                         (upper_diameter - lower_diameter)) (\<lambda>slope_upper.
     let extrapolated_lower = fst upper_range + slope_lower * (tool_diameter' - upper_diameter);
         extrapolated_upper = snd upper_range + slope_upper * (tool_diameter' - upper_diameter) in
     bind_result (py_index diameters 0) (\<lambda>d0.
     bind_result (dict_get material_data d0) (\<lambda>first_range.
     Inr (max extrapolated_lower (fst first_range), extrapolated_upper))))))))))"

definition get_chipload_range ::
  "MaterialProperties_dm \<Rightarrow> MaterialType \<Rightarrow> real \<Rightarrow> (real \<times> real) result" where
  "get_chipload_range self material tool_diameter' =
     bind_result (dict_get (chiploads self) material) (\<lambda>material_data.
     let diameters = sort (map fst material_data) in
     bind_result (py_index diameters 0) (\<lambda>d0.
     if tool_diameter' \<le> d0 then dict_get material_data d0
     else
       bind_result (py_index diameters (- 1)) (\<lambda>dl.
       if tool_diameter' \<ge> dl then extrapolate_chipload self material tool_diameter'
       else interpolate_chipload self material tool_diameter')))"

record CuttingParameters_dm =
  flutes_dm :: int
  tool_diameter_dm :: real
  rpm_dm :: int
  width_of_cut_dm :: real
  depth_of_cut_dm :: real
  chipload_dm :: real
  material_dm :: MaterialType
  cutting_style_dm :: CuttingStyle

definition validate_dm :: "CuttingParameters_dm \<Rightarrow> unit result" where
  "validate_dm self =
     (if flutes_dm self \<le> 0 then Inl (ValueError ''Number of flutes must be positive'')
      else if tool_diameter_dm self \<le> 0 then Inl (ValueError ''Tool diameter must be positive'')
      else if rpm_dm self \<le> 0 then Inl (ValueError ''RPM must be positive'')
      else if width_of_cut_dm self \<le> 0 then Inl (ValueError ''Width of cut must be positive'')
      else if depth_of_cut_dm self \<le> 0 then Inl (ValueError ''Depth of cut must be positive'')
      else if chipload_dm self \<le> 0 then Inl (ValueError ''Chipload must be positive'')
      else Inr ())"

text \<open>
  The dataclass constructor stores the fields and runs \<open>__post_init__\<close>, which calls
  \<open>validate\<close>; an exception there means no instance is returned.
\<close>

definition CuttingParameters_dm_init ::
  "int \<Rightarrow> real \<Rightarrow> int \<Rightarrow> real \<Rightarrow> real \<Rightarrow> real \<Rightarrow> MaterialType \<Rightarrow> CuttingStyle \<Rightarrow>
   CuttingParameters_dm result" where
  "CuttingParameters_dm_init fl td r w d c m s =
     (let self = \<lparr>flutes_dm = fl, tool_diameter_dm = td, rpm_dm = r, width_of_cut_dm = w,
                  depth_of_cut_dm = d, chipload_dm = c, material_dm = m, cutting_style_dm = s\<rparr>
      in bind_result (validate_dm self) (\<lambda>_. Inr self))"

subsection \<open>types.py\<close>

record ChiploadRange =
  lower :: real
  upper :: real
  per_flute :: bool

subsection \<open>event_handlers.py\<close>

text \<open>
  Fields of \<open>CalculationParameters\<close> whose names \<open>calculations.py\<close> already uses
  carry the suffix \<open>_ev\<close>. Of \<open>EventHandler\<close> only the two numeric attributes set in
  \<open>__init__\<close> matter to the search.

  \<open>_find_maximum_feedrate\<close> calls a module-level
  \<open>calculate_feedrate(flutes, rpm, chipload, woc, tool_diameter)\<close> imported from
  \<open>calculations\<close>; that module defines only the method of \<open>ChiploadCalculator\<close>, so the
  search takes the feedrate function as its first argument, and what is proved about the
  search holds for every such function.
\<close>

record CalculationParameters =
  flutes_ev :: real
  tool_diameter_ev :: real
  rpm_ev :: real
  woc :: real
  doc :: real
  chipload_ev :: real
  material_ev :: string
  cutting_style_ev :: string

record EventHandler =
  feedrate_limit :: real
  chipload_increment :: real

definition EventHandler_init :: EventHandler where
  "EventHandler_init = \<lparr>feedrate_limit = 6000, chipload_increment = 0.0001\<rparr>"

type_synonym feedrate_fn = "real \<Rightarrow> real \<Rightarrow> real \<Rightarrow> real \<Rightarrow> real \<Rightarrow> real result"

text \<open>
  The \<open>while\<close> loop, as a function of its three variables; \<open>break\<close> and the loop's
  exit both return the pair \<open>(max_feedrate, max_chipload)\<close>. A run that never leaves
  the loop is \<open>None\<close>.
\<close>

partial_function (option) find_maximum_feedrate_loop ::
  "feedrate_fn \<Rightarrow> EventHandler \<Rightarrow> CalculationParameters \<Rightarrow> real \<Rightarrow>
   real \<Rightarrow> real \<Rightarrow> real \<Rightarrow> (real \<times> real) result option" where
  "find_maximum_feedrate_loop calc self params upper_chipload
       current_chipload max_feedrate max_chipload =
     (if current_chipload \<le> upper_chipload then
        (case py_div current_chipload (flutes_ev params) of
           Inl e \<Rightarrow> Some (Inl e)
         | Inr per_flute_chipload \<Rightarrow>
            (case calc (flutes_ev params) (rpm_ev params) per_flute_chipload
                       (woc params) (tool_diameter_ev params) of
               Inl e \<Rightarrow> Some (Inl e)
             | Inr feedrate \<Rightarrow>
                if max_feedrate < feedrate \<and> feedrate \<le> feedrate_limit self then
                  find_maximum_feedrate_loop calc self params upper_chipload
                    (current_chipload + chipload_increment self) feedrate current_chipload
                else if feedrate > feedrate_limit self then
                  Some (Inr (max_feedrate, max_chipload))
                else
                  find_maximum_feedrate_loop calc self params upper_chipload
                    (current_chipload + chipload_increment self) max_feedrate max_chipload))
      else Some (Inr (max_feedrate, max_chipload)))"

definition find_maximum_feedrate ::
  "feedrate_fn \<Rightarrow> EventHandler \<Rightarrow> CalculationParameters \<Rightarrow> real \<Rightarrow> real \<Rightarrow>
   (real \<times> real) option result option" where
  "find_maximum_feedrate calc self params lower_chipload upper_chipload =
     map_option
       (\<lambda>r. case r of
          Inl e \<Rightarrow> Inl e
        | Inr (max_feedrate, max_chipload) \<Rightarrow>
            if max_feedrate = 0 then Inr None else Inr (Some (max_feedrate, max_chipload)))
       (find_maximum_feedrate_loop calc self params upper_chipload
          lower_chipload 0 lower_chipload)"

section \<open>Properties\<close>

subsection \<open>Feedrate\<close>

lemma bind_result_Inr [simp]: "bind_result (Inr v) f = f v"
  by (simp add: bind_result_def)

lemma bind_result_Inl [simp]: "bind_result (Inl e) f = Inl e"
  by (simp add: bind_result_def)

lemma validate_None_iff:
  "validate p = None \<longleftrightarrow>
     0 < flutes p \<and> 0 < tool_diameter p \<and> 0 < rpm p \<and> 0 < width_of_cut p \<and>
     0 < depth_of_cut p \<and> 0 < chipload p \<and> width_of_cut p \<le> tool_diameter p"
  by (auto simp: validate_def)

subsection \<open>Chipload lookup\<close>

lemma py_index3:
  "py_index [a, b, c] 0 = Inr a" "py_index [a, b, c] (- 1) = Inr c" "py_index [a, b, c] (- 2) = Inr b"
  by (simp_all add: py_index_def)

lemmas lookup_simps = py_index3 dict_get_def py_div_def py_max_def py_min_def

text \<open>The four branches of the lookup on a table of three ascending reference diameters.\<close>

lemma suggest_chipload_low:
  assumes "map_of (materials self) m = Some mat"
    and "chipload_ranges mat = [(a, ra), (b, rb), (c, rc)]"
    and "a < b" "b < c" "td \<le> a"
  shows "suggest_chipload self td m = Inr ra"
  using assms by (simp add: suggest_chipload_def lookup_simps)

lemma suggest_chipload_high:
  assumes "map_of (materials self) m = Some mat"
    and "chipload_ranges mat = [(a, ra), (b, rb), (c, rc)]"
    and "a < b" "b < c" "c \<le> td"
  shows "suggest_chipload self td m =
     Inr (max (fst rc + (fst rc - fst rb) / (c - b) * (td - c)) (fst ra),
          snd rc + (snd rc - snd rb) / (c - b) * (td - c))"
  using assms by (simp add: suggest_chipload_def lookup_simps)

lemma suggest_chipload_between:
  assumes "map_of (materials self) m = Some mat"
    and "chipload_ranges mat = [(a, ra), (b, rb), (c, rc)]"
    and "a < b" "b < c"
  shows "a < td \<Longrightarrow> td < b \<Longrightarrow> suggest_chipload self td m =
           Inr (fst ra + (td - a) * (fst rb - fst ra) / (b - a),
                snd ra + (td - a) * (snd rb - snd ra) / (b - a))"
    and "b < td \<Longrightarrow> td < c \<Longrightarrow> suggest_chipload self td m =
           Inr (fst rb + (td - b) * (fst rc - fst rb) / (c - b),
                snd rb + (td - b) * (snd rc - snd rb) / (c - b))"
    and "suggest_chipload self b m = Inr rb"
  using assms by (simp_all add: suggest_chipload_def lookup_simps interpolate_def)

lemma get_chipload_range_low:
  assumes "map_of (chiploads self) m = Some [(a, ra), (b, rb), (c, rc)]"
    and "a < b" "b < c" "td \<le> a"
  shows "get_chipload_range self m td = Inr ra"
  using assms by (simp add: get_chipload_range_def lookup_simps)

lemma get_chipload_range_high:
  assumes "map_of (chiploads self) m = Some [(a, ra), (b, rb), (c, rc)]"
    and "a < b" "b < c" "c \<le> td"
  shows "get_chipload_range self m td =
     Inr (max (fst rc + (fst rc - fst rb) / (c - b) * (td - c)) (fst ra),
          snd rc + (snd rc - snd rb) / (c - b) * (td - c))"
  using assms by (simp add: get_chipload_range_def extrapolate_chipload_def lookup_simps)

lemma get_chipload_range_between:
  assumes "map_of (chiploads self) m = Some [(a, ra), (b, rb), (c, rc)]"
    and "a < b" "b < c"
  shows "a < td \<Longrightarrow> td < b \<Longrightarrow> get_chipload_range self m td =
           Inr (fst ra + (td - a) * (fst rb - fst ra) / (b - a),
                snd ra + (td - a) * (snd rb - snd ra) / (b - a))"
    and "b < td \<Longrightarrow> td < c \<Longrightarrow> get_chipload_range self m td =
           Inr (fst rb + (td - b) * (fst rc - fst rb) / (c - b),
                snd rb + (td - b) * (snd rc - snd rb) / (c - b))"
    and "get_chipload_range self m b = Inr rb"
  using assms
  by (simp_all add: get_chipload_range_def interpolate_chipload_def lookup_simps interpolate_dm_def)

text \<open>The built-in tables.\<close>

lemma default_materials_mem:
  assumes "(m, mat) \<in> set get_default_materials"
  shows "(m = ''Soft plastics'' \<and> chipload_ranges mat = [(1.5, (0.05, 0.075)), (3.175, (0.05, 0.13)), (6, (0.05, 0.254))]) \<or>
     (m = ''Soft wood & hard plastics'' \<and> chipload_ranges mat = [(1.5, (0.025, 0.04)), (3.175, (0.025, 0.063)), (6, (0.025, 0.127))]) \<or>
     (m = ''Hard wood & aluminium'' \<and> chipload_ranges mat = [(1.5, (0.013, 0.013)), (3.175, (0.013, 0.025)), (6, (0.025, 0.05))])"
proof -
  from assms have "(m, mat) = get_default_materials ! 0 \<or> (m, mat) = get_default_materials ! 1
      \<or> (m, mat) = get_default_materials ! 2"
    unfolding get_default_materials_def by (simp only: list.set insert_iff empty_iff nth_Cons_0 nth_Cons_Suc One_nat_def numeral_2_eq_2) blast
  then show ?thesis
    unfolding get_default_materials_def by (elim disjE) simp_all
qed

lemma default_chiploads_mem:
  assumes "(m, tbl) \<in> set default_chiploads"
  shows "map_of (chiploads (MaterialProperties_dm_init [])) m = Some tbl \<and>
    (tbl = [(1.5, (0.05, 0.075)), (3.175, (0.05, 0.13)), (6, (0.05, 0.254))] \<or>
     tbl = [(1.5, (0.025, 0.04)), (3.175, (0.025, 0.063)), (6, (0.025, 0.127))] \<or>
     tbl = [(1.5, (0.013, 0.013)), (3.175, (0.013, 0.025)), (6, (0.025, 0.05))])"
  using assms by (auto simp: default_chiploads_def MaterialProperties_dm_init_def)

lemma interpolate_between:
  fixes x x1 x2 y1 y2 :: real
  assumes "x1 < x" "x < x2"
  shows "min y1 y2 \<le> y1 + (x - x1) * (y2 - y1) / (x2 - x1)"
    and "y1 + (x - x1) * (y2 - y1) / (x2 - x1) \<le> max y1 y2"
proof -
  define t where "t = (x - x1) / (x2 - x1)"
  have t: "0 < t" "t < 1" using assms by (simp_all add: t_def)
  have "(x - x1) * (y2 - y1) / (x2 - x1) = t * (y2 - y1)" by (simp add: t_def)
  then have v: "y1 + (x - x1) * (y2 - y1) / (x2 - x1) = (1 - t) * y1 + t * y2"
    by (simp add: algebra_simps)
  have lo: "(1 - t) * min y1 y2 \<le> (1 - t) * y1" "t * min y1 y2 \<le> t * y2"
    using t by (simp_all add: mult_left_mono)
  have hi: "(1 - t) * y1 \<le> (1 - t) * max y1 y2" "t * y2 \<le> t * max y1 y2"
    using t by (simp_all add: mult_left_mono)
  have "min y1 y2 = (1 - t) * min y1 y2 + t * min y1 y2" by (simp add: algebra_simps)
  also have "\<dots> \<le> (1 - t) * y1 + t * y2" using lo by simp
  finally show "min y1 y2 \<le> y1 + (x - x1) * (y2 - y1) / (x2 - x1)" by (simp add: v)
  have "(1 - t) * y1 + t * y2 \<le> (1 - t) * max y1 y2 + t * max y1 y2" using hi by simp
  also have "\<dots> = max y1 y2" by (simp add: algebra_simps)
  finally show "y1 + (x - x1) * (y2 - y1) / (x2 - x1) \<le> max y1 y2" by (simp add: v)
qed

lemma default_materials_map_of:
  assumes "(m, mat) \<in> set get_default_materials"
  shows "map_of (materials ChiploadCalculator_init) m = Some mat"
proof -
  have "distinct (map fst get_default_materials)"
    by (simp add: get_default_materials_def)
  with assms show ?thesis
    by (simp add: ChiploadCalculator_init_def)
qed

lemma default_tables:
  assumes "(m, mat) \<in> set get_default_materials"
  shows "chipload_ranges mat = [(1.5, (0.05, 0.075)), (3.175, (0.05, 0.13)), (6, (0.05, 0.254))] \<or>
     chipload_ranges mat = [(1.5, (0.025, 0.04)), (3.175, (0.025, 0.063)), (6, (0.025, 0.127))] \<or>
     chipload_ranges mat = [(1.5, (0.013, 0.013)), (3.175, (0.013, 0.025)), (6, (0.025, 0.05))]"
  using default_materials_mem[OF assms] by blast

text \<open>Each built-in table lists its reference diameters in ascending order.\<close>

lemma default_tables_ascending:
  assumes "(m, mat) \<in> set get_default_materials"
  shows "sort (map fst (chipload_ranges mat)) = map fst (chipload_ranges mat)"
  using default_tables[OF assms] by (elim disjE) simp_all

lemma ref_order: "(1.5::real) < 3.175" "(3.175::real) < 6"
  by simp_all

lemma suggest_chipload_at_three:
  assumes mo: "map_of (materials self) m = Some mat"
    and t: "chipload_ranges mat = [(a, ra), (b, rb), (c, rc)]"
    and o: "a < b" "b < c" and f: "fst ra \<le> fst rc"
    and d: "(d, r) \<in> set (chipload_ranges mat)"
  shows "suggest_chipload self d m = Inr r"
proof -
  from d consider "d = a" "r = ra" | "d = b" "r = rb" | "d = c" "r = rc"
    unfolding t by auto
  then show ?thesis
  proof cases
    case 1
    then show ?thesis using suggest_chipload_low[OF mo t o order_refl] by simp
  next
    case 2
    then show ?thesis using suggest_chipload_between(3)[OF mo t o] by simp
  next
    case 3
    then show ?thesis using suggest_chipload_high[OF mo t o order_refl] f by simp
  qed
qed

lemma get_chipload_range_at_three:
  assumes mo: "map_of (chiploads self) m = Some [(a, ra), (b, rb), (c, rc)]"
    and o: "a < b" "b < c" and f: "fst ra \<le> fst rc"
    and d: "(d, r) \<in> set [(a, ra), (b, rb), (c, rc)]"
  shows "get_chipload_range self m d = Inr r"
proof -
  from d consider "d = a" "r = ra" | "d = b" "r = rb" | "d = c" "r = rc"
    by auto
  then show ?thesis
  proof cases
    case 1
    then show ?thesis using get_chipload_range_low[OF mo o order_refl] by simp
  next
    case 2
    then show ?thesis using get_chipload_range_between(3)[OF mo o] by simp
  next
    case 3
    then show ?thesis using get_chipload_range_high[OF mo o order_refl] f by simp
  qed
qed

text \<open>
  C4. For every built-in material and every reference diameter tabulated for it,
  the lookup at that diameter returns exactly the pair stored in the table. This holds
  for \<open>ChiploadCalculator.suggest_chipload\<close> and for
  \<open>MaterialProperties.get_chipload_range\<close> of \<open>data_models.py\<close>; at the largest
  reference diameter both go through the extrapolation branch.
\<close>

theorem suggest_chipload_at_reference:
  "((m, mat) \<in> set get_default_materials \<and> (d, r) \<in> set (chipload_ranges mat) \<longrightarrow>
      suggest_chipload ChiploadCalculator_init d m = Inr r) \<and>
   ((mt, tbl) \<in> set default_chiploads \<and> (d, r) \<in> set tbl \<longrightarrow>
      get_chipload_range (MaterialProperties_dm_init []) mt d = Inr r)"
proof (intro conjI impI; elim conjE)
  assume mem: "(m, mat) \<in> set get_default_materials" and d: "(d, r) \<in> set (chipload_ranges mat)"
  note at = suggest_chipload_at_three[OF default_materials_map_of[OF mem] _ ref_order _ d]
  from default_tables[OF mem] show "suggest_chipload ChiploadCalculator_init d m = Inr r"
    by (elim disjE) (erule at, simp)+
next
  assume mem: "(mt, tbl) \<in> set default_chiploads" and d: "(d, r) \<in> set tbl"
  from default_chiploads_mem[OF mem]
  have mo: "map_of (chiploads (MaterialProperties_dm_init [])) mt = Some tbl"
    and tb: "tbl = [(1.5, (0.05, 0.075)), (3.175, (0.05, 0.13)), (6, (0.05, 0.254))] \<or>
     tbl = [(1.5, (0.025, 0.04)), (3.175, (0.025, 0.063)), (6, (0.025, 0.127))] \<or>
     tbl = [(1.5, (0.013, 0.013)), (3.175, (0.013, 0.025)), (6, (0.025, 0.05))]" by simp_all
  from tb show "get_chipload_range (MaterialProperties_dm_init []) mt d = Inr r"
  proof (elim disjE)
    assume t: "tbl = [(1.5, (0.05, 0.075)), (3.175, (0.05, 0.13)), (6, (0.05, 0.254))]"
    show ?thesis
      by (rule get_chipload_range_at_three[OF mo[unfolded t] ref_order _ d[unfolded t]]) simp
  next
    assume t: "tbl = [(1.5, (0.025, 0.04)), (3.175, (0.025, 0.063)), (6, (0.025, 0.127))]"
    show ?thesis
      by (rule get_chipload_range_at_three[OF mo[unfolded t] ref_order _ d[unfolded t]]) simp
  next
    assume t: "tbl = [(1.5, (0.013, 0.013)), (3.175, (0.013, 0.025)), (6, (0.025, 0.05))]"
    show ?thesis
      by (rule get_chipload_range_at_three[OF mo[unfolded t] ref_order _ d[unfolded t]]) simp
  qed
qed

theorem suggest_chipload_at_reference_witness:
  "suggest_chipload ChiploadCalculator_init 3.175 ''Soft plastics'' = Inr (0.05, 0.13) \<and>
   get_chipload_range (MaterialProperties_dm_init []) HARD_WOOD_ALUMINIUM 6 = Inr (0.025, 0.05)"
  using suggest_chipload_at_reference
    [of "''Soft plastics''"
        "\<lparr>name = ''Soft plastics'',
          chipload_ranges = [(1.5, (0.05, 0.075)), (3.175, (0.05, 0.13)), (6, (0.05, 0.254))]\<rparr>"
        "3.175" "(0.05, 0.13)"]
    suggest_chipload_at_reference
    [of _ _ 6 "(0.025, 0.05)" HARD_WOOD_ALUMINIUM
        "[(1.5, (0.013, 0.013)), (3.175, (0.013, 0.025)), (6, (0.025, 0.05))]"]
  by (simp add: get_default_materials_def default_chiploads_def)


lemma suggest_chipload_beyond_three:
  assumes mo: "map_of (materials self) m = Some mat"
    and t: "chipload_ranges mat = [(a, ra), (b, rb), (c, rc)]"
    and o: "a < b" "b < c"
    and p: "last (butlast (chipload_ranges mat)) = (d1, r1)" "last (chipload_ranges mat) = (d2, r2)"
    and td: "\<forall>d \<in> fst ` set (chipload_ranges mat). d \<le> td"
  shows "\<exists>lo up. suggest_chipload self td m = Inr (lo, up) \<and>
      lo = max (fst r2 + (fst r2 - fst r1) / (d2 - d1) * (td - d2))
               (fst (snd (hd (chipload_ranges mat)))) \<and>
      up = snd r2 + (snd r2 - snd r1) / (d2 - d1) * (td - d2) \<and>
      Min (fst ` snd ` set (chipload_ranges mat)) \<le> lo"
proof -
  from p have e: "d1 = b" "r1 = rb" "d2 = c" "r2 = rc" unfolding t by simp_all
  from td have c: "c \<le> td" unfolding t by simp
  have "Min (fst ` snd ` set (chipload_ranges mat)) \<le> fst ra" unfolding t by simp
  then show ?thesis
    unfolding suggest_chipload_high[OF mo t o c] e by (simp add: t max.coboundedI2)
qed

lemma get_chipload_range_beyond_three:
  assumes mo: "map_of (chiploads self) m = Some tbl"
    and t: "tbl = [(a, ra), (b, rb), (c, rc)]"
    and o: "a < b" "b < c"
    and p: "last (butlast tbl) = (d1, r1)" "last tbl = (d2, r2)"
    and td: "\<forall>d \<in> fst ` set tbl. d \<le> td"
  shows "\<exists>lo up. get_chipload_range self m td = Inr (lo, up) \<and>
      lo = max (fst r2 + (fst r2 - fst r1) / (d2 - d1) * (td - d2)) (fst (snd (hd tbl))) \<and>
      up = snd r2 + (snd r2 - snd r1) / (d2 - d1) * (td - d2) \<and>
      Min (fst ` snd ` set tbl) \<le> lo"
proof -
  from p have e: "d1 = b" "r1 = rb" "d2 = c" "r2 = rc" unfolding t by simp_all
  from td have c: "c \<le> td" unfolding t by simp
  have "Min (fst ` snd ` set tbl) \<le> fst ra" unfolding t by simp
  then show ?thesis
    unfolding get_chipload_range_high[OF mo[unfolded t] o c] e by (simp add: t max.coboundedI2)
qed

text \<open>
  C5. For every built-in material and every tool diameter that is at least every
  reference diameter of its table, the lookup returns the two bounds extrapolated along
  the slope between the last two reference points \<open>(d1, r1)\<close> and \<open>(d2, r2)\<close>, the
  lower one clamped from below by the lower bound stored at the first reference
  diameter; the returned lower bound is at least the smallest lower bound of the table.
  Again for both implementations.
\<close>

theorem suggest_chipload_extrapolation:
  "((m, mat) \<in> set get_default_materials \<and>
    last (butlast (chipload_ranges mat)) = (d1, r1) \<and> last (chipload_ranges mat) = (d2, r2) \<and>
    (\<forall>d \<in> fst ` set (chipload_ranges mat). d \<le> td) \<longrightarrow>
      (\<exists>lo up. suggest_chipload ChiploadCalculator_init td m = Inr (lo, up) \<and>
         lo = max (fst r2 + (fst r2 - fst r1) / (d2 - d1) * (td - d2))
                  (fst (snd (hd (chipload_ranges mat)))) \<and>
         up = snd r2 + (snd r2 - snd r1) / (d2 - d1) * (td - d2) \<and>
         Min (fst ` snd ` set (chipload_ranges mat)) \<le> lo)) \<and>
   ((mt, tbl) \<in> set default_chiploads \<and>
    last (butlast tbl) = (d1, r1) \<and> last tbl = (d2, r2) \<and> (\<forall>d \<in> fst ` set tbl. d \<le> td) \<longrightarrow>
      (\<exists>lo up. get_chipload_range (MaterialProperties_dm_init []) mt td = Inr (lo, up) \<and>
         lo = max (fst r2 + (fst r2 - fst r1) / (d2 - d1) * (td - d2)) (fst (snd (hd tbl))) \<and>
         up = snd r2 + (snd r2 - snd r1) / (d2 - d1) * (td - d2) \<and>
         Min (fst ` snd ` set tbl) \<le> lo))"
proof (intro conjI impI; elim conjE)
  assume mem: "(m, mat) \<in> set get_default_materials"
    and p: "last (butlast (chipload_ranges mat)) = (d1, r1)" "last (chipload_ranges mat) = (d2, r2)"
    and td: "\<forall>d \<in> fst ` set (chipload_ranges mat). d \<le> td"
  note g = suggest_chipload_beyond_three[OF default_materials_map_of[OF mem] _ ref_order p td]
  from default_tables[OF mem]
  show "\<exists>lo up. suggest_chipload ChiploadCalculator_init td m = Inr (lo, up) \<and>
         lo = max (fst r2 + (fst r2 - fst r1) / (d2 - d1) * (td - d2))
                  (fst (snd (hd (chipload_ranges mat)))) \<and>
         up = snd r2 + (snd r2 - snd r1) / (d2 - d1) * (td - d2) \<and>
         Min (fst ` snd ` set (chipload_ranges mat)) \<le> lo"
    by (elim disjE) (erule g)+
next
  assume mem: "(mt, tbl) \<in> set default_chiploads"
    and p: "last (butlast tbl) = (d1, r1)" "last tbl = (d2, r2)"
    and td: "\<forall>d \<in> fst ` set tbl. d \<le> td"
  from default_chiploads_mem[OF mem]
  have mo: "map_of (chiploads (MaterialProperties_dm_init [])) mt = Some tbl"
    and tb: "tbl = [(1.5, (0.05, 0.075)), (3.175, (0.05, 0.13)), (6, (0.05, 0.254))] \<or>
     tbl = [(1.5, (0.025, 0.04)), (3.175, (0.025, 0.063)), (6, (0.025, 0.127))] \<or>
     tbl = [(1.5, (0.013, 0.013)), (3.175, (0.013, 0.025)), (6, (0.025, 0.05))]" by simp_all
  note g = get_chipload_range_beyond_three[OF mo _ ref_order p td]
  from tb
  show "\<exists>lo up. get_chipload_range (MaterialProperties_dm_init []) mt td = Inr (lo, up) \<and>
         lo = max (fst r2 + (fst r2 - fst r1) / (d2 - d1) * (td - d2)) (fst (snd (hd tbl))) \<and>
         up = snd r2 + (snd r2 - snd r1) / (d2 - d1) * (td - d2) \<and>
         Min (fst ` snd ` set tbl) \<le> lo"
    by (elim disjE) (erule g)+
qed


theorem suggest_chipload_extrapolation_witness:
  "\<exists>lo up. suggest_chipload ChiploadCalculator_init 10 ''Hard wood & aluminium'' = Inr (lo, up) \<and>
     lo = max (0.025 + (0.025 - 0.013) / (6 - 3.175) * (10 - 6)) 0.013 \<and>
     up = 0.05 + (0.05 - 0.025) / (6 - 3.175) * (10 - 6) \<and> 0.013 \<le> lo"
  using suggest_chipload_extrapolation
    [of "''Hard wood & aluminium''"
        "\<lparr>name = ''Hard wood & aluminium'',
          chipload_ranges = [(1.5, (0.013, 0.013)), (3.175, (0.013, 0.025)), (6, (0.025, 0.05))]\<rparr>"
        "3.175" "(0.013, 0.025)" 6 "(0.025, 0.05)" 10]
  by (simp add: get_default_materials_def)

lemma suggest_chipload_adjacent_three:
  assumes mo: "map_of (materials self) m = Some mat"
    and t: "chipload_ranges mat = [(a, ra), (b, rb), (c, rc)]"
    and o: "a < b" "b < c"
    and i: "Suc i < length (chipload_ranges mat)"
    and p: "chipload_ranges mat ! i = (d1, r1)" "chipload_ranges mat ! Suc i = (d2, r2)"
    and td: "d1 < td" "td < d2"
  shows "\<exists>lo up. suggest_chipload self td m = Inr (lo, up) \<and>
      min (fst r1) (fst r2) \<le> lo \<and> lo \<le> max (fst r1) (fst r2) \<and>
      min (snd r1) (snd r2) \<le> up \<and> up \<le> max (snd r1) (snd r2)"
proof -
  from i have "i = 0 \<or> i = 1" unfolding t by auto
  then show ?thesis
  proof
    assume "i = 0"
    with p have e: "d1 = a" "r1 = ra" "d2 = b" "r2 = rb" unfolding t by simp_all
    from td have td': "a < td" "td < b" unfolding e .
    show ?thesis
      unfolding suggest_chipload_between(1)[OF mo t o td'] e
      using interpolate_between[OF td'] by simp
  next
    assume "i = 1"
    with p have e: "d1 = b" "r1 = rb" "d2 = c" "r2 = rc" unfolding t by simp_all
    from td have td': "b < td" "td < c" unfolding e .
    show ?thesis
      unfolding suggest_chipload_between(2)[OF mo t o td'] e
      using interpolate_between[OF td'] by simp
  qed
qed

text \<open>
  C6. For every built-in material and every tool diameter strictly between two
  adjacent reference diameters, the interpolated lower bound lies between the lower
  bounds stored at the two references and the interpolated upper bound between the two
  upper bounds. (The built-in tables list their reference diameters in ascending order,
  so neighbours in the table are adjacent reference diameters.)
\<close>

theorem suggest_chipload_interpolation_between:
  assumes "(m, mat) \<in> set get_default_materials"
    and "Suc i < length (chipload_ranges mat)"
    and "chipload_ranges mat ! i = (d1, r1)" "chipload_ranges mat ! Suc i = (d2, r2)"
    and "d1 < td" "td < d2"
  shows "\<exists>lo up. suggest_chipload ChiploadCalculator_init td m = Inr (lo, up) \<and>
      min (fst r1) (fst r2) \<le> lo \<and> lo \<le> max (fst r1) (fst r2) \<and>
      min (snd r1) (snd r2) \<le> up \<and> up \<le> max (snd r1) (snd r2)"
proof -
  note g = suggest_chipload_adjacent_three
    [OF default_materials_map_of[OF assms(1)] _ ref_order assms(2-6)]
  from default_tables[OF assms(1)] show ?thesis
    by (elim disjE) (erule g)+
qed

theorem suggest_chipload_interpolation_between_witness:
  "\<exists>lo up. suggest_chipload ChiploadCalculator_init 4 ''Hard wood & aluminium'' = Inr (lo, up) \<and>
      0.013 \<le> lo \<and> lo \<le> 0.025 \<and> 0.025 \<le> up \<and> up \<le> 0.05"
  using suggest_chipload_interpolation_between
    [of "''Hard wood & aluminium''"
        "\<lparr>name = ''Hard wood & aluminium'',
          chipload_ranges = [(1.5, (0.013, 0.013)), (3.175, (0.013, 0.025)), (6, (0.025, 0.05))]\<rparr>"
        1 "3.175" "(0.013, 0.025)" 6 "(0.025, 0.05)" 4]
  by (simp add: get_default_materials_def)

lemma suggest_chipload_ordered_three:
  assumes mo: "map_of (materials self) m = Some mat"
    and t: "chipload_ranges mat = [(a, ra), (b, rb), (c, rc)]"
    and o: "a < b" "b < c"
    and r: "fst ra \<le> snd ra" "fst rb \<le> snd rb" "fst rc \<le> snd rc"
    and w: "snd rb - fst rb \<le> snd rc - fst rc" "snd rb \<le> snd rc" "fst ra \<le> snd rc"
  shows "\<exists>lo up. suggest_chipload self td m = Inr (lo, up) \<and> lo \<le> up"
proof -
  have between: "y1 + (x - x1) * (y2 - y1) / (x2 - x1) \<le> z1 + (x - x1) * (z2 - z1) / (x2 - x1)"
    if "x1 < x" "x < x2" "y1 \<le> z1" "y2 \<le> z2" for x x1 x2 y1 y2 z1 z2 :: real
  proof -
    define k where "k = (x - x1) / (x2 - x1)"
    have k: "0 < k" "k < 1" using that(1,2) by (simp_all add: k_def)
    have eq: "(x - x1) * e / (x2 - x1) = k * e" for e by (simp add: k_def)
    have "(1 - k) * y1 \<le> (1 - k) * z1" "k * y2 \<le> k * z2"
      using k that(3,4) by (simp_all add: mult_left_mono)
    then have "(1 - k) * y1 + k * y2 \<le> (1 - k) * z1 + k * z2" by (rule add_mono)
    then show ?thesis unfolding eq by (simp add: algebra_simps)
  qed
  consider "td \<le> a" | "a < td" "td < b" | "td = b" | "b < td" "td < c" | "c \<le> td"
    by linarith
  then show ?thesis
  proof cases
    case 1
    then show ?thesis using suggest_chipload_low[OF mo t o] r(1) by (cases ra) simp
  next
    case 2
    then show ?thesis
      unfolding suggest_chipload_between(1)[OF mo t o 2] using between[OF 2 r(1) r(2)] by simp
  next
    case 3
    then show ?thesis using suggest_chipload_between(3)[OF mo t o] r(2) by (cases rb) simp
  next
    case 4
    then show ?thesis
      unfolding suggest_chipload_between(2)[OF mo t o 4] using between[OF 4 r(2) r(3)] by simp
  next
    case 5
    define s where "s = (td - c) / (c - b)"
    have s: "0 \<le> s" using 5 o by (simp add: s_def)
    have eq: "e / (c - b) * (td - c) = e * s" for e by (simp add: s_def)
    have "0 \<le> (snd rc - snd rb) * s" using w(2) s by (intro mult_nonneg_nonneg) simp_all
    then have 1: "fst ra \<le> snd rc + (snd rc - snd rb) * s" using w(3) by linarith
    have "0 \<le> ((snd rc - fst rc) - (snd rb - fst rb)) * s"
      using w(1) s by (intro mult_nonneg_nonneg) simp_all
    then have 2: "fst rc + (fst rc - fst rb) * s \<le> snd rc + (snd rc - snd rb) * s"
      using r(3) by (simp add: algebra_simps)
    show ?thesis
      unfolding suggest_chipload_high[OF mo t o 5] eq using 1 2 by simp
  qed
qed

text \<open>
  C10. For each of the three built-in materials and every tool diameter (positive or
  not), \<open>suggest_chipload\<close> returns a pair whose lower bound is at most its upper
  bound, whichever branch computes it.
\<close>

theorem suggest_chipload_lower_le_upper:
  assumes "(m, mat) \<in> set get_default_materials"
  shows "\<exists>lo up. suggest_chipload ChiploadCalculator_init td m = Inr (lo, up) \<and> lo \<le> up"
proof -
  note g = suggest_chipload_ordered_three[OF default_materials_map_of[OF assms] _ ref_order]
  from default_tables[OF assms] show ?thesis
    by (elim disjE) (erule g; simp)+
qed

theorem suggest_chipload_lower_le_upper_witness:
  "\<exists>lo up. suggest_chipload ChiploadCalculator_init 12 ''Soft wood & hard plastics'' = Inr (lo, up) \<and> lo \<le> up"
  using suggest_chipload_lower_le_upper
    [of "''Soft wood & hard plastics''"
        "\<lparr>name = ''Soft wood & hard plastics'',
          chipload_ranges = [(1.5, (0.025, 0.04)), (3.175, (0.025, 0.063)), (6, (0.025, 0.127))]\<rparr>" 12]
  by (simp add: get_default_materials_def)

subsection \<open>Validation at construction\<close>

text \<open>
  The constructor of \<open>data_models.CuttingParameters\<close> succeeds exactly when the six
  positivity checks of its \<open>validate\<close> pass; the width of cut is not compared with the
  tool diameter there. \<open>calculations.CuttingParameters\<close> is a plain dataclass: it is
  validated by \<open>calculate_feedrate\<close>, not when it is built.
\<close>

lemma CuttingParameters_dm_init_ok_iff:
  "(\<exists>p. CuttingParameters_dm_init fl td r w d c m s = Inr p) \<longleftrightarrow>
     0 < fl \<and> 0 < td \<and> 0 < r \<and> 0 < w \<and> 0 < d \<and> 0 < c"
  by (auto simp: CuttingParameters_dm_init_def validate_dm_def Let_def)

text \<open>
  C7 says that constructing a \<open>CuttingParameters\<close> value with a width of cut larger
  than the tool diameter fails at construction time. The validating constructor of
  \<open>data_models.py\<close> returns an instance for a width of cut of \<open>2\<close> on a tool of
  diameter \<open>1\<close>; \<open>CuttingParameters.validate\<close> of \<open>calculations.py\<close> rejects the same
  numbers.
\<close>

theorem CuttingParameters_dm_accepts_wide_cut:
  "CuttingParameters_dm_init 1 1 1 2 1 1 SOFT_PLASTICS WIDE_SHALLOW =
     Inr \<lparr>flutes_dm = 1, tool_diameter_dm = 1, rpm_dm = 1, width_of_cut_dm = 2,
          depth_of_cut_dm = 1, chipload_dm = 1, material_dm = SOFT_PLASTICS,
          cutting_style_dm = WIDE_SHALLOW\<rparr> \<and>
   validate \<lparr>flutes = 1, tool_diameter = 1, rpm = 1, width_of_cut = 2, depth_of_cut = 1,
             chipload = 1\<rparr> = Some ''Width of cut cannot exceed tool diameter''"
  by (simp add: CuttingParameters_dm_init_def validate_dm_def validate_def)

subsection \<open>Feedrate maximizer\<close>

text \<open>
  With a positive increment every pass through the loop body moves the current chipload
  one increment closer to the upper bound, so the number of increments that still fit
  below the bound is a measure of the remaining work.
\<close>

lemma loop_steps:
  fixes u c i :: real
  assumes "0 < i" "c \<le> u"
  shows "nat \<lceil>(u - (c + i)) / i + 1\<rceil> < nat \<lceil>(u - c) / i + 1\<rceil>"
proof -
  have "(u - (c + i)) / i = (u - c) / i - 1" using assms(1) by (simp add: field_simps)
  moreover have "0 \<le> (u - c) / i" using assms by simp
  ultimately show ?thesis by linarith
qed

text \<open>
  The loop returns, and it keeps the invariant that a non-zero best feedrate is within
  the limit and was recorded at a chipload between the lower and the upper bound.
\<close>

lemma find_maximum_feedrate_loop_inv:
  assumes inc: "0 < chipload_increment self"
  shows "lo \<le> c \<Longrightarrow> (mf \<noteq> 0 \<longrightarrow> lo \<le> mc \<and> mc \<le> up \<and> mf \<le> feedrate_limit self) \<Longrightarrow>
     \<exists>r. find_maximum_feedrate_loop calc self params up c mf mc = Some r \<and>
       (\<forall>bf bc. r = Inr (bf, bc) \<longrightarrow> bf \<noteq> 0 \<longrightarrow> lo \<le> bc \<and> bc \<le> up \<and> bf \<le> feedrate_limit self)"
proof (induction "nat \<lceil>(up - c) / chipload_increment self + 1\<rceil>" arbitrary: c mf mc rule: less_induct)
  case less
  show ?case
  proof (cases "c \<le> up")
    case False
    then show ?thesis using less.prems
      by (subst find_maximum_feedrate_loop.simps) simp
  next
    case True
    note dec = loop_steps[OF inc True]
    have c': "lo \<le> c + chipload_increment self" using less.prems(1) inc by simp
    show ?thesis
    proof (cases "py_div c (flutes_ev params)")
      case (Inl e)
      then show ?thesis using True by (subst find_maximum_feedrate_loop.simps) simp
    next
      case (Inr q)
      show ?thesis
      proof (cases "calc (flutes_ev params) (rpm_ev params) q (woc params) (tool_diameter_ev params)")
        case (Inl e)
        then show ?thesis using True Inr by (subst find_maximum_feedrate_loop.simps) simp
      next
        case fr: (Inr f)
        consider (better) "mf < f" "f \<le> feedrate_limit self"
          | (over) "feedrate_limit self < f"
          | (same) "\<not> mf < f" "f \<le> feedrate_limit self" by linarith
        then show ?thesis
        proof cases
          case better
          have "f \<noteq> 0 \<longrightarrow> lo \<le> c \<and> c \<le> up \<and> f \<le> feedrate_limit self"
            using less.prems(1) True better by simp
          from less.hyps[OF dec c' this] show ?thesis
            using True Inr fr better by (subst find_maximum_feedrate_loop.simps) simp
        next
          case over
          then show ?thesis using True Inr fr less.prems(2)
            by (subst find_maximum_feedrate_loop.simps) simp
        next
          case same
          from less.hyps[OF dec c' less.prems(2)] show ?thesis
            using True Inr fr same by (subst find_maximum_feedrate_loop.simps) simp
        qed
      qed
    qed
  qed
qed

text \<open>
  C3. For every pair of total-chipload bounds, every parameter set and every feedrate
  ceiling, with the handler's increment positive (it is \<open>0.0001\<close>) and whatever the
  feedrate function: the search returns; if it returns a pair
  \<open>(best_feedrate, best_chipload)\<close> then
  \<open>lower \<le> best_chipload \<le> upper\<close> and \<open>best_feedrate \<le> ceiling\<close>; and if the feedrate
  computed at the lower bound already exceeds the ceiling, the search reports that
  nothing was found (\<open>None\<close>). The claim's hypotheses \<open>lower \<le> upper\<close>, valid
  parameters and a positive ceiling are not needed; a flute count other than zero is
  what lets the feedrate at the lower bound be computed.
\<close>

theorem find_maximum_feedrate_bounds:
  assumes "0 < chipload_increment self"
  shows "(\<exists>r. find_maximum_feedrate calc self params lower_chipload upper_chipload = Some r) \<and>
    (find_maximum_feedrate calc self params lower_chipload upper_chipload
        = Some (Inr (Some (best_feedrate, best_chipload))) \<longrightarrow>
      lower_chipload \<le> best_chipload \<and> best_chipload \<le> upper_chipload \<and>
      best_feedrate \<le> feedrate_limit self) \<and>
    (flutes_ev params \<noteq> 0 \<and>
     calc (flutes_ev params) (rpm_ev params) (lower_chipload / flutes_ev params)
          (woc params) (tool_diameter_ev params) = Inr f \<and>
     feedrate_limit self < f \<longrightarrow>
      find_maximum_feedrate calc self params lower_chipload upper_chipload = Some (Inr None))"
proof -
  from find_maximum_feedrate_loop_inv[OF assms, of lower_chipload lower_chipload 0 lower_chipload
      upper_chipload calc params]
  obtain r where r: "find_maximum_feedrate_loop calc self params upper_chipload
                       lower_chipload 0 lower_chipload = Some r"
    and inv: "\<And>bf bc. r = Inr (bf, bc) \<Longrightarrow> bf \<noteq> 0 \<Longrightarrow>
                lower_chipload \<le> bc \<and> bc \<le> upper_chipload \<and> bf \<le> feedrate_limit self"
    by auto
  have 1: "\<exists>r. find_maximum_feedrate calc self params lower_chipload upper_chipload = Some r"
    by (simp add: find_maximum_feedrate_def r)
  have 2: "lower_chipload \<le> best_chipload \<and> best_chipload \<le> upper_chipload \<and>
      best_feedrate \<le> feedrate_limit self"
    if "find_maximum_feedrate calc self params lower_chipload upper_chipload
        = Some (Inr (Some (best_feedrate, best_chipload)))"
  proof -
    from that have "r = Inr (best_feedrate, best_chipload) \<and> best_feedrate \<noteq> 0"
      by (auto simp: find_maximum_feedrate_def r split: sum.splits prod.splits if_splits)
    then show ?thesis using inv by blast
  qed
  have 3: "find_maximum_feedrate calc self params lower_chipload upper_chipload = Some (Inr None)"
    if "flutes_ev params \<noteq> 0"
      and "calc (flutes_ev params) (rpm_ev params) (lower_chipload / flutes_ev params)
             (woc params) (tool_diameter_ev params) = Inr f"
      and "feedrate_limit self < f"
  proof -
    have "find_maximum_feedrate_loop calc self params upper_chipload
            lower_chipload 0 lower_chipload = Some (Inr (0, lower_chipload))"
      using that by (subst find_maximum_feedrate_loop.simps) (simp add: py_div_def)
    then show ?thesis by (simp add: find_maximum_feedrate_def)
  qed
  from 1 2 3 show ?thesis by blast
qed

text \<open>
  An instance: the handler as \<open>__init__\<close> sets it up, the feedrate function the base
  feedrate \<open>rpm * chipload * flutes\<close>, one flute at 18000 RPM. Between total chiploads
  \<open>0.1\<close> and \<open>0.1\<close> the search finds 1800 mm/min; from \<open>0.5\<close> the feedrate is
  9000 mm/min, above the limit of 6000, and nothing is found.
\<close>

theorem find_maximum_feedrate_bounds_witness:
  "0 < chipload_increment EventHandler_init \<and>
   find_maximum_feedrate (\<lambda>fl r c w td. Inr (r * c * fl)) EventHandler_init
      \<lparr>flutes_ev = 1, tool_diameter_ev = 6.35, rpm_ev = 18000, woc = 6.35, doc = 0.254,
       chipload_ev = 0.0254, material_ev = ''Soft plastics'',
       cutting_style_ev = ''Wide and Shallow''\<rparr> 0.1 0.1 = Some (Inr (Some (1800, 0.1))) \<and>
   (0.1::real) \<le> 0.1 \<and> 1800 \<le> feedrate_limit EventHandler_init \<and>
   find_maximum_feedrate (\<lambda>fl r c w td. Inr (r * c * fl)) EventHandler_init
      \<lparr>flutes_ev = 1, tool_diameter_ev = 6.35, rpm_ev = 18000, woc = 6.35, doc = 0.254,
       chipload_ev = 0.0254, material_ev = ''Soft plastics'',
       cutting_style_ev = ''Wide and Shallow''\<rparr> 0.5 1 = Some (Inr None)"
  using find_maximum_feedrate_bounds
    [of EventHandler_init "\<lambda>fl r c w td. Inr (r * c * fl)"
        "\<lparr>flutes_ev = 1, tool_diameter_ev = 6.35, rpm_ev = 18000, woc = 6.35, doc = 0.254,
          chipload_ev = 0.0254, material_ev = ''Soft plastics'',
          cutting_style_ev = ''Wide and Shallow''\<rparr>" "0.1" "0.1" 1800 "0.1" 1800]
    find_maximum_feedrate_bounds
    [of EventHandler_init "\<lambda>fl r c w td. Inr (r * c * fl)"
        "\<lparr>flutes_ev = 1, tool_diameter_ev = 6.35, rpm_ev = 18000, woc = 6.35, doc = 0.254,
          chipload_ev = 0.0254, material_ev = ''Soft plastics'',
          cutting_style_ev = ''Wide and Shallow''\<rparr>" "0.5" 1 0 0 9000]
  by (simp add: find_maximum_feedrate_def find_maximum_feedrate_loop.simps
      EventHandler_init_def py_div_def)

end
